theory Spec2Isabelle
  imports Complex_Main
begin

section \<open>The notebook as a document\<close>

text \<open>
  The repository's program is one Jupyter notebook,
  \<^verbatim>\<open>07. Training Neural Networks in PyTorch-checkpoint.ipynb\<close>: a list of cells, of
  which the code cells carry Python source lines, the counter of their recorded
  execution and the outputs that execution left in the file. The code cells are
  transcribed below in document order, each named after its execution counter
  (\<open>cell_In16\<close> is the cell recorded as \<^verbatim>\<open>In [16]\<close>). A source or output line
  is written without its terminating newline; a backslash is written \<open>CHR 0x5C\<close>. The
  markdown cells are prose and are not transcribed, nor is the payload of the one
  \<^verbatim>\<open>image/png\<close> output.
\<close>

text \<open>
  The four output types of the notebook format. A stream output has the stream's name
  and its text lines; a display or result output is given by the MIME types of its data
  bundle and the lines of its \<^verbatim>\<open>text/plain\<close> entry; an error output records the
  exception's name, its value and the traceback.
\<close>

datatype cell_output =
    Stream string "string list"
  | Display_data "string list" "string list"
  | Execute_result "string list" "string list"
  | Error_output string string "string list"

record code_cell =
  execution_count :: "nat option"
  outputs :: "cell_output list"
  source :: "string list"

definition cell_In1 :: code_cell where
  "cell_In1 = \<lparr>
     execution_count = Some 1,
     outputs =
       [],
     source =
      [''import torch'',
       ''from torch import nn'',
       ''import torch.nn.functional as F'',
       ''from torchvision import datasets, transforms'',
       [],
       ''# Define a transform to normalize the data'',
       ''transform = transforms.Compose([transforms.ToTensor(),'',
       ''                                transforms.Normalize((0.5, 0.5, 0.5), (0.5, 0.5, 0.5)),'',
       ''                              ])'',
       ''# Download and load the training data'',
       ''trainset = datasets.MNIST('~/.pytorch/MNIST_data/', download=True, train=True, transform=transform)'',
       ''trainloader = torch.utils.data.DataLoader(trainset, batch_size=64, shuffle=True)'']\<rparr>"

definition cell_In2 :: code_cell where
  "cell_In2 = \<lparr>
     execution_count = Some 2,
     outputs =
       [Stream ''stdout''
        [''tensor(2.3101, grad_fn=<NllLossBackward>)'']],
     source =
      [''# Build a feed-forward network'',
       ''model = nn.Sequential(nn.Linear(784, 128),'',
       ''                      nn.ReLU(),'',
       ''                      nn.Linear(128, 64),'',
       ''                      nn.ReLU(),'',
       ''                      nn.Linear(64, 10))'',
       [],
       ''# Define the loss'',
       ''criterion = nn.CrossEntropyLoss()'',
       [],
       ''# Get our data'',
       ''images, labels = next(iter(trainloader))'',
       ''# Flatten images'',
       ''images = images.view(images.shape[0], -1)'',
       [],
       ''# Forward pass, get our logits'',
       ''logits = model(images)'',
       ''# Calculate the loss with the logits and the labels'',
       ''loss = criterion(logits, labels)'',
       [],
       ''print(loss)'']\<rparr>"

definition cell_In3 :: code_cell where
  "cell_In3 = \<lparr>
     execution_count = Some 3,
     outputs =
       [Stream ''stdout''
        [''tensor(2.3048, grad_fn=<NllLossBackward>)'']],
     source =
      [''# Build a feed-forward network'',
       ''model = nn.Sequential(nn.Linear(784, 128),'',
       ''                      nn.ReLU(),'',
       ''                      nn.Linear(128, 64),'',
       ''                      nn.ReLU(),'',
       ''                      nn.Linear(64, 10),'',
       ''                      nn.LogSoftmax(dim=1))'',
       [],
       ''# Define the loss'',
       ''criterion = nn.NLLLoss()'',
       [],
       ''# Get our data'',
       ''images, labels = next(iter(trainloader))'',
       ''# Flatten images'',
       ''images = images.view(images.shape[0], -1)'',
       [],
       ''# Forward pass, get our log-probabilities'',
       ''logps = model(images)'',
       ''# Calculate the loss with the logps and the labels'',
       ''loss = criterion(logps, labels)'',
       [],
       ''print(loss)'']\<rparr>"

definition cell_In4 :: code_cell where
  "cell_In4 = \<lparr>
     execution_count = Some 4,
     outputs =
       [Stream ''stdout''
        [''tensor([[-1.5367,  1.3747],'',
         ''        [-0.6888, -1.2932]], requires_grad=True)'']],
     source =
      [''x = torch.randn(2,2, requires_grad=True)'',
       ''print(x)'']\<rparr>"

definition cell_In5 :: code_cell where
  "cell_In5 = \<lparr>
     execution_count = Some 5,
     outputs =
       [Stream ''stdout''
        [''tensor([[2.3614, 1.8898],'',
         ''        [0.4744, 1.6724]], grad_fn=<PowBackward0>)'']],
     source =
      [''y = x**2'',
       ''print(y)'']\<rparr>"

definition cell_In6 :: code_cell where
  "cell_In6 = \<lparr>
     execution_count = Some 6,
     outputs =
       [Stream ''stdout''
        [''<PowBackward0 object at 0x1232ea9b0>'']],
     source =
      [''## grad_fn shows the function that generated this variable'',
       ''print(y.grad_fn)'']\<rparr>"

definition cell_In7 :: code_cell where
  "cell_In7 = \<lparr>
     execution_count = Some 7,
     outputs =
       [Stream ''stdout''
        [''tensor(1.5995, grad_fn=<MeanBackward1>)'']],
     source =
      [''z = y.mean()'',
       ''print(z)'']\<rparr>"

definition cell_In9 :: code_cell where
  "cell_In9 = \<lparr>
     execution_count = Some 9,
     outputs =
       [Stream ''stdout''
        [''None None None'']],
     source =
      [''print(x.grad,y.grad,z.grad)'']\<rparr>"

definition cell_In10 :: code_cell where
  "cell_In10 = \<lparr>
     execution_count = Some 10,
     outputs =
       [Stream ''stdout''
        [''tensor([[-0.7683,  0.6873],'',
         ''        [-0.3444, -0.6466]])'',
         ''tensor([[-0.7683,  0.6873],'',
         ''        [-0.3444, -0.6466]], grad_fn=<DivBackward0>)'']],
     source =
      [''z.backward()'',
       ''print(x.grad)'',
       ''print(x/2)'']\<rparr>"

definition cell_In11 :: code_cell where
  "cell_In11 = \<lparr>
     execution_count = Some 11,
     outputs =
       [],
     source =
      [''# Build a feed-forward network'',
       ''model = nn.Sequential(nn.Linear(784, 128),'',
       ''                      nn.ReLU(),'',
       ''                      nn.Linear(128, 64),'',
       ''                      nn.ReLU(),'',
       ''                      nn.Linear(64, 10),'',
       ''                      nn.LogSoftmax(dim=1))'',
       [],
       ''criterion = nn.NLLLoss()'',
       ''images, labels = next(iter(trainloader))'',
       ''images = images.view(images.shape[0], -1)'',
       [],
       ''logits = model(images)'',
       ''loss = criterion(logits, labels)'']\<rparr>"

definition cell_In12 :: code_cell where
  "cell_In12 = \<lparr>
     execution_count = Some 12,
     outputs =
       [Stream ''stdout''
        [''Before backward pass: '',
         '' None'',
         ''After backward pass: '',
         '' tensor([[-0.0023, -0.0023, -0.0023,  ..., -0.0023, -0.0023, -0.0023],'',
         ''        [ 0.0000,  0.0000,  0.0000,  ...,  0.0000,  0.0000,  0.0000],'',
         ''        [ 0.0000,  0.0000,  0.0000,  ...,  0.0000,  0.0000,  0.0000],'',
         ''        ...,'',
         ''        [-0.0010, -0.0010, -0.0010,  ..., -0.0010, -0.0010, -0.0010],'',
         ''        [ 0.0027,  0.0027,  0.0027,  ...,  0.0027,  0.0027,  0.0027],'',
         ''        [ 0.0003,  0.0003,  0.0003,  ...,  0.0003,  0.0003,  0.0003]])'']],
     source =
      [''print('Before backward pass: '' @ [CHR 0x5C] @ ''n', model[0].weight.grad)'',
       [],
       ''loss.backward()'',
       [],
       ''print('After backward pass: '' @ [CHR 0x5C] @ ''n', model[0].weight.grad)'']\<rparr>"

definition cell_In13 :: code_cell where
  "cell_In13 = \<lparr>
     execution_count = Some 13,
     outputs =
       [],
     source =
      [''from torch import optim'',
       [],
       ''# Optimizers require the parameters to optimize and a learning rate'',
       ''optimizer = optim.SGD(model.parameters(), lr=0.01)'']\<rparr>"

definition cell_In14 :: code_cell where
  "cell_In14 = \<lparr>
     execution_count = Some 14,
     outputs =
       [Stream ''stdout''
        [''Initial weights -  Parameter containing:'',
         ''tensor([[ 1.5425e-02,  2.3794e-02,  3.0812e-02,  ..., -3.0052e-02,'',
         ''         -2.4703e-02, -3.2205e-02],'',
         ''        [ 1.6061e-02, -3.4652e-04,  3.5134e-02,  ..., -8.1569e-04,'',
         ''         -1.7934e-02,  1.7322e-02],'',
         ''        [ 3.4780e-02,  6.0498e-03, -9.3213e-04,  ..., -7.2209e-03,'',
         ''         -7.5657e-03,  1.3878e-02],'',
         ''        ...,'',
         ''        [-2.8525e-02, -3.1066e-02, -2.5048e-02,  ...,  8.8000e-03,'',
         ''          2.0230e-02,  1.9758e-02],'',
         ''        [ 2.9522e-02,  4.6072e-03, -2.6944e-02,  ...,  3.7137e-05,'',
         ''          1.0792e-02, -2.8270e-03],'',
         ''        [ 9.6052e-03, -3.4105e-02, -1.7511e-02,  ..., -1.5414e-02,'',
         ''         -4.0071e-03, -1.1965e-02]], requires_grad=True)'',
         ''Gradient - tensor([[-0.0025, -0.0025, -0.0025,  ..., -0.0025, -0.0025, -0.0025],'',
         ''        [ 0.0000,  0.0000,  0.0000,  ...,  0.0000,  0.0000,  0.0000],'',
         ''        [ 0.0000,  0.0000,  0.0000,  ...,  0.0000,  0.0000,  0.0000],'',
         ''        ...,'',
         ''        [-0.0002, -0.0002, -0.0002,  ..., -0.0002, -0.0002, -0.0002],'',
         ''        [ 0.0005,  0.0005,  0.0005,  ...,  0.0005,  0.0005,  0.0005],'',
         ''        [ 0.0003,  0.0003,  0.0003,  ...,  0.0003,  0.0003,  0.0003]])'']],
     source =
      [''print('Initial weights - ', model[0].weight)'',
       [],
       ''images, labels = next(iter(trainloader))'',
       ''images.resize_(64, 784)'',
       [],
       ''# Clear the gradients, do this because gradients are accumulated'',
       ''optimizer.zero_grad()'',
       [],
       ''# Forward pass, then backward pass, then update weights'',
       ''output = model(images)'',
       ''loss = criterion(output, labels)'',
       ''loss.backward()'',
       ''print('Gradient -', model[0].weight.grad)'']\<rparr>"

definition cell_In15 :: code_cell where
  "cell_In15 = \<lparr>
     execution_count = Some 15,
     outputs =
       [Stream ''stdout''
        [''Updated weights -  Parameter containing:'',
         ''tensor([[ 1.5450e-02,  2.3819e-02,  3.0837e-02,  ..., -3.0027e-02,'',
         ''         -2.4678e-02, -3.2181e-02],'',
         ''        [ 1.6061e-02, -3.4652e-04,  3.5134e-02,  ..., -8.1569e-04,'',
         ''         -1.7934e-02,  1.7322e-02],'',
         ''        [ 3.4780e-02,  6.0498e-03, -9.3213e-04,  ..., -7.2209e-03,'',
         ''         -7.5657e-03,  1.3878e-02],'',
         ''        ...,'',
         ''        [-2.8522e-02, -3.1063e-02, -2.5046e-02,  ...,  8.8022e-03,'',
         ''          2.0232e-02,  1.9760e-02],'',
         ''        [ 2.9516e-02,  4.6019e-03, -2.6949e-02,  ...,  3.1900e-05,'',
         ''          1.0786e-02, -2.8322e-03],'',
         ''        [ 9.6023e-03, -3.4108e-02, -1.7514e-02,  ..., -1.5417e-02,'',
         ''         -4.0101e-03, -1.1968e-02]], requires_grad=True)'']],
     source =
      [''# Take an update step and few the new weights'',
       ''optimizer.step()'',
       ''print('Updated weights - ', model[0].weight)'']\<rparr>"

definition cell_In16 :: code_cell where
  "cell_In16 = \<lparr>
     execution_count = Some 16,
     outputs =
       [Stream ''stdout''
        [''Training loss: 1.8482103443094917'',
         ''Training loss: 0.7881349392219393'',
         ''Training loss: 0.5054461888349386'',
         ''Training loss: 0.4187001598033824'',
         ''Training loss: 0.3776651714672285'']],
     source =
      [''## Your solution here'',
       [],
       ''model = nn.Sequential(nn.Linear(784, 128),'',
       ''                      nn.ReLU(),'',
       ''                      nn.Linear(128, 64),'',
       ''                      nn.ReLU(),'',
       ''                      nn.Linear(64, 10),'',
       ''                      nn.LogSoftmax(dim=1))'',
       [],
       ''criterion = nn.NLLLoss()'',
       ''optimizer = optim.SGD(model.parameters(), lr=0.003)'',
       [],
       ''epochs = 5'',
       ''for e in range(epochs):'',
       ''    running_loss = 0'',
       ''    for images, labels in trainloader:'',
       ''        # Flatten MNIST images into a 784 long vector'',
       ''        images = images.view(images.shape[0], -1)'',
       ''    '',
       ''        # Training pass'',
       ''        optimizer.zero_grad()'',
       ''        '',
       ''        output = model(images)'',
       ''        loss = criterion(output, labels)'',
       ''        loss.backward()'',
       ''        optimizer.step()'',
       ''        '',
       ''        running_loss += loss.item()'',
       ''    else:'',
       ''        print(f\"Training loss: {running_loss/len(trainloader)}\")'']\<rparr>"

definition cell_In18 :: code_cell where
  "cell_In18 = \<lparr>
     execution_count = Some 18,
     outputs =
       [Display_data [''image/png'',
         ''text/plain'']
        [''<Figure size 432x648 with 2 Axes>'']],
     source =
      [''%matplotlib inline'',
       ''import helper'',
       [],
       ''images, labels = next(iter(trainloader))'',
       [],
       ''img = images[0].view(1, 784)'',
       ''# Turn off gradients to speed up this part'',
       ''with torch.no_grad():'',
       ''    logps = model(img)'',
       [],
       ''# Output of the network are log-probabilities, need to take exponential for probabilities'',
       ''ps = torch.exp(logps)'',
       ''helper.view_classify(img.view(1, 28, 28), ps)'']\<rparr>"

definition code_cells :: "code_cell list" where
  "code_cells = [cell_In1,
     cell_In2,
     cell_In3,
     cell_In4,
     cell_In5,
     cell_In6,
     cell_In7,
     cell_In9,
     cell_In10,
     cell_In11,
     cell_In12,
     cell_In13,
     cell_In14,
     cell_In15,
     cell_In16,
     cell_In18]"

subsection \<open>Reading the document\<close>

definition code_lines :: "code_cell list \<Rightarrow> string list" where
  "code_lines cs = concat (map source cs)"

fun stream_lines :: "cell_output \<Rightarrow> string list" where
  "stream_lines (Stream name ls) = ls"
| "stream_lines _ = []"

definition printed_lines :: "code_cell \<Rightarrow> string list" where
  "printed_lines c = concat (map stream_lines (outputs c))"

fun is_stream :: "cell_output \<Rightarrow> bool" where
  "is_stream (Stream name ls) = True"
| "is_stream _ = False"

fun is_display :: "cell_output \<Rightarrow> bool" where
  "is_display (Display_data mimes ls) = True"
| "is_display _ = False"

fun is_error :: "cell_output \<Rightarrow> bool" where
  "is_error (Error_output ename evalue tb) = True"
| "is_error _ = False"

fun starts_with :: "string \<Rightarrow> string \<Rightarrow> bool" where
  "starts_with [] s = True"
| "starts_with (p # ps) [] = False"
| "starts_with (p # ps) (c # cs) = (p = c \<and> starts_with ps cs)"

fun contains :: "string \<Rightarrow> string \<Rightarrow> bool" where
  "contains p [] = starts_with p []"
| "contains p (c # cs) = (starts_with p (c # cs) \<or> contains p cs)"

fun strip_prefix :: "string \<Rightarrow> string \<Rightarrow> string option" where
  "strip_prefix [] s = Some s"
| "strip_prefix (p # ps) [] = None"
| "strip_prefix (p # ps) (c # cs) = (if p = c then strip_prefix ps cs else None)"

text \<open>
  A printed loss is a decimal numeral such as \<^verbatim>\<open>0.7881349392219393\<close>; it is read as
  the rational number it denotes.
\<close>

definition digit_val :: "char \<Rightarrow> nat option" where
  "digit_val c = (let n = (of_char c :: nat) in if 48 \<le> n \<and> n \<le> 57 then Some (n - 48) else None)"

fun parse_digits :: "nat \<Rightarrow> string \<Rightarrow> nat option" where
  "parse_digits acc [] = Some acc"
| "parse_digits acc (c # cs) =
     (case digit_val c of None \<Rightarrow> None | Some d \<Rightarrow> parse_digits (10 * acc + d) cs)"

definition parse_decimal :: "string \<Rightarrow> rat option" where
  "parse_decimal s =
     (let ip = takeWhile (\<lambda>c. c \<noteq> CHR ''.'') s;
          fp = drop 1 (dropWhile (\<lambda>c. c \<noteq> CHR ''.'') s)
      in if ip = [] \<or> fp = [] then None
         else case (parse_digits 0 ip, parse_digits 0 fp) of
                (Some i, Some f) \<Rightarrow> Some (of_nat i + of_nat f / 10 ^ length fp)
              | _ \<Rightarrow> None)"

definition parse_training_loss :: "string \<Rightarrow> rat option" where
  "parse_training_loss l =
     (case strip_prefix ''Training loss: '' l of None \<Rightarrow> None | Some s \<Rightarrow> parse_decimal s)"

definition recorded_losses :: "code_cell \<Rightarrow> rat list option" where
  "recorded_losses c = those (map parse_training_loss (printed_lines c))"

fun strictly_decreasing :: "rat list \<Rightarrow> bool" where
  "strictly_decreasing (x # y # ys) = (y < x \<and> strictly_decreasing (y # ys))"
| "strictly_decreasing _ = True"

text \<open>
  The position, among all code lines of the notebook, of the first line that contains a
  given piece of text; and the test that a list of such positions is strictly increasing.
\<close>

fun first_line :: "string \<Rightarrow> string list \<Rightarrow> nat option" where
  "first_line p [] = None"
| "first_line p (l # ls) = (if contains p l then Some 0 else map_option Suc (first_line p ls))"

fun in_order :: "nat option list \<Rightarrow> bool" where
  "in_order (Some i # Some j # rest) = (i < j \<and> in_order (Some j # rest))"
| "in_order [Some i] = True"
| "in_order _ = False"

text \<open>
  The Python keywords that begin an exception handler (\<^verbatim>\<open>try\<close>, \<^verbatim>\<open>except\<close>,
  \<^verbatim>\<open>finally\<close>), a check (\<^verbatim>\<open>if\<close>, \<^verbatim>\<open>elif\<close>, \<^verbatim>\<open>assert\<close>, \<^verbatim>\<open>raise\<close>) or an
  open-ended loop (\<^verbatim>\<open>while\<close>). A statement of one of these kinds is a line that, after
  its indentation, starts with the keyword.
\<close>

definition handler_keywords :: "string list" where
  "handler_keywords =
     [''try'', ''except'', ''finally'', ''raise'', ''assert'', ''while'', ''if'', ''elif'']"

definition strip_indent :: "string \<Rightarrow> string" where
  "strip_indent l = dropWhile (\<lambda>c. c = CHR '' '') l"

definition starts_with_keyword :: "string \<Rightarrow> bool" where
  "starts_with_keyword l = list_ex (\<lambda>kw. starts_with kw (strip_indent l)) handler_keywords"

definition printed_rows :: "nat \<Rightarrow> nat \<Rightarrow> code_cell \<Rightarrow> string list" where
  "printed_rows start n c = take n (drop start (printed_lines c))"

section \<open>The training loop of cell In[16]\<close>

text \<open>
  Everything the loop computes with is an object of the external library: tensors, the
  model, the criterion, the optimizer and the data loader. The library is therefore a
  parameter of the model: a record of the operations the loop invokes, over a type
  \<open>'w\<close> of library-side state (parameters, gradients, the recorded graph, the
  optimizer, the shuffling generator), a type \<open>'t\<close> of tensors and a type \<open>'f\<close> of
  Python floats. Every operation may raise, and every stateful one returns the new
  library state. Iterating the loader is given by the finite list of elements one pass
  yields, each element as the sequence of its items.
\<close>

datatype error = ValueError | ZeroDivisionError | Raised string

record ('w, 't, 'f) library =
  loader_iter :: "'w \<Rightarrow> error + ('t list list \<times> 'w)"
  loader_len :: "'w \<Rightarrow> error + (nat \<times> 'w)"
  view_flat :: "'t \<Rightarrow> 'w \<Rightarrow> error + ('t \<times> 'w)"
  zero_grad :: "'w \<Rightarrow> error + 'w"
  model_call :: "'t \<Rightarrow> 'w \<Rightarrow> error + ('t \<times> 'w)"
  criterion :: "'t \<Rightarrow> 't \<Rightarrow> 'w \<Rightarrow> error + ('t \<times> 'w)"
  backward :: "'t \<Rightarrow> 'w \<Rightarrow> error + 'w"
  step :: "'w \<Rightarrow> error + 'w"
  item :: "'t \<Rightarrow> 'w \<Rightarrow> error + ('f \<times> 'w)"
  float_add :: "'f \<Rightarrow> 'f \<Rightarrow> 'f"
  float_div :: "'f \<Rightarrow> 'f \<Rightarrow> 'f"
  float_of_int :: "int \<Rightarrow> 'f"
  int_truediv :: "int \<Rightarrow> int \<Rightarrow> 'f"

text \<open>
  What a run does that can be observed: the library calls it makes, with their
  arguments (and the result, for the two calls whose result the notebook's own
  arithmetic consumes), and the values it prints.
\<close>

datatype ('t, 'f) event =
    Ev_iter "'t list list"
  | Ev_len nat
  | Ev_view 't
  | Ev_zero_grad
  | Ev_model 't
  | Ev_criterion 't 't
  | Ev_backward 't
  | Ev_step
  | Ev_item 't 'f
  | Ev_print 'f

text \<open>\<open>running_loss\<close> starts as the Python int \<open>0\<close> and becomes a float at the first addition.\<close>

datatype 'f pynum = PyInt int | PyFloat 'f

record ('w, 't, 'f) state =
  lib_state :: 'w
  running_loss :: "'f pynum"
  trace :: "('t, 'f) event list"

definition and_then :: "error + 'a \<Rightarrow> ('a \<Rightarrow> error + 'b) \<Rightarrow> error + 'b" where
  "and_then r f = (case r of Inl e \<Rightarrow> Inl e | Inr x \<Rightarrow> f x)"

definition record_call ::
  "('t, 'f) event \<Rightarrow> 'w \<Rightarrow> ('w, 't, 'f) state \<Rightarrow> ('w, 't, 'f) state" where
  "record_call ev w s = s\<lparr>lib_state := w, trace := trace s @ [ev]\<rparr>"

definition call_iter ::
  "('w, 't, 'f) library \<Rightarrow> ('w, 't, 'f) state \<Rightarrow> error + ('t list list \<times> ('w, 't, 'f) state)" where
  "call_iter lib s =
     and_then (loader_iter lib (lib_state s)) (\<lambda>(bs, w). Inr (bs, record_call (Ev_iter bs) w s))"

definition call_len ::
  "('w, 't, 'f) library \<Rightarrow> ('w, 't, 'f) state \<Rightarrow> error + (nat \<times> ('w, 't, 'f) state)" where
  "call_len lib s =
     and_then (loader_len lib (lib_state s)) (\<lambda>(n, w). Inr (n, record_call (Ev_len n) w s))"

definition call_view ::
  "('w, 't, 'f) library \<Rightarrow> 't \<Rightarrow> ('w, 't, 'f) state \<Rightarrow> error + ('t \<times> ('w, 't, 'f) state)" where
  "call_view lib images s =
     and_then (view_flat lib images (lib_state s))
       (\<lambda>(r, w). Inr (r, record_call (Ev_view images) w s))"

definition call_zero_grad ::
  "('w, 't, 'f) library \<Rightarrow> ('w, 't, 'f) state \<Rightarrow> error + ('w, 't, 'f) state" where
  "call_zero_grad lib s =
     and_then (zero_grad lib (lib_state s)) (\<lambda>w. Inr (record_call Ev_zero_grad w s))"

definition call_model ::
  "('w, 't, 'f) library \<Rightarrow> 't \<Rightarrow> ('w, 't, 'f) state \<Rightarrow> error + ('t \<times> ('w, 't, 'f) state)" where
  "call_model lib images s =
     and_then (model_call lib images (lib_state s))
       (\<lambda>(r, w). Inr (r, record_call (Ev_model images) w s))"

definition call_criterion ::
  "('w, 't, 'f) library \<Rightarrow> 't \<Rightarrow> 't \<Rightarrow> ('w, 't, 'f) state \<Rightarrow> error + ('t \<times> ('w, 't, 'f) state)" where
  "call_criterion lib output labels s =
     and_then (criterion lib output labels (lib_state s))
       (\<lambda>(r, w). Inr (r, record_call (Ev_criterion output labels) w s))"

definition call_backward ::
  "('w, 't, 'f) library \<Rightarrow> 't \<Rightarrow> ('w, 't, 'f) state \<Rightarrow> error + ('w, 't, 'f) state" where
  "call_backward lib loss s =
     and_then (backward lib loss (lib_state s)) (\<lambda>w. Inr (record_call (Ev_backward loss) w s))"

definition call_step ::
  "('w, 't, 'f) library \<Rightarrow> ('w, 't, 'f) state \<Rightarrow> error + ('w, 't, 'f) state" where
  "call_step lib s =
     and_then (step lib (lib_state s)) (\<lambda>w. Inr (record_call Ev_step w s))"

definition call_item ::
  "('w, 't, 'f) library \<Rightarrow> 't \<Rightarrow> ('w, 't, 'f) state \<Rightarrow> error + ('f \<times> ('w, 't, 'f) state)" where
  "call_item lib loss s =
     and_then (item lib loss (lib_state s))
       (\<lambda>(v, w). Inr (v, record_call (Ev_item loss v) w s))"

text \<open>
  Python's arithmetic on \<open>running_loss\<close>: \<^verbatim>\<open>running_loss += loss.item()\<close> adds a float
  to an int or a float, and \<^verbatim>\<open>running_loss/len(trainloader)\<close> is true division by an
  int, which raises \<^verbatim>\<open>ZeroDivisionError\<close> when the divisor is zero.
\<close>

definition py_add :: "('w, 't, 'f) library \<Rightarrow> 'f pynum \<Rightarrow> 'f \<Rightarrow> 'f pynum" where
  "py_add lib a v =
     (case a of
        PyInt i \<Rightarrow> PyFloat (float_add lib (float_of_int lib i) v)
      | PyFloat u \<Rightarrow> PyFloat (float_add lib u v))"

definition py_truediv :: "('w, 't, 'f) library \<Rightarrow> 'f pynum \<Rightarrow> nat \<Rightarrow> error + 'f" where
  "py_truediv lib a n =
     (if n = 0 then Inl ZeroDivisionError
      else case a of
        PyInt i \<Rightarrow> Inr (int_truediv lib i (int n))
      | PyFloat u \<Rightarrow> Inr (float_div lib u (float_of_int lib (int n))))"

text \<open>
  The body of \<^verbatim>\<open>for images, labels in trainloader:\<close> (source lines 583 to 595). The
  loop header unpacks each element into two names, which raises \<^verbatim>\<open>ValueError\<close> for
  an element that has not exactly two items.
\<close>

definition loop_body ::
  "('w, 't, 'f) library \<Rightarrow> 't list \<Rightarrow> ('w, 't, 'f) state \<Rightarrow> error + ('w, 't, 'f) state" where
  "loop_body lib element s =
     (case element of
        [images, labels] \<Rightarrow>
          and_then (call_view lib images s) (\<lambda>(images, s).
          and_then (call_zero_grad lib s) (\<lambda>s.
          and_then (call_model lib images s) (\<lambda>(output, s).
          and_then (call_criterion lib output labels s) (\<lambda>(loss, s).
          and_then (call_backward lib loss s) (\<lambda>s.
          and_then (call_step lib s) (\<lambda>s.
          and_then (call_item lib loss s) (\<lambda>(v, s).
          Inr (s\<lparr>running_loss := py_add lib (running_loss s) v\<rparr>))))))))
      | _ \<Rightarrow> Inl ValueError)"

fun for_batches ::
  "('w, 't, 'f) library \<Rightarrow> 't list list \<Rightarrow> ('w, 't, 'f) state \<Rightarrow> error + ('w, 't, 'f) state" where
  "for_batches lib [] s = Inr s"
| "for_batches lib (b # bs) s = and_then (loop_body lib b s) (for_batches lib bs)"

text \<open>
  One iteration of \<^verbatim>\<open>for e in range(epochs):\<close> (source lines 582 to 597). The inner
  loop has no \<^verbatim>\<open>break\<close>, so its \<^verbatim>\<open>else\<close> clause runs whenever the loop ends.
\<close>

definition epoch ::
  "('w, 't, 'f) library \<Rightarrow> ('w, 't, 'f) state \<Rightarrow> error + ('w, 't, 'f) state" where
  "epoch lib s =
     and_then (call_iter lib (s\<lparr>running_loss := PyInt 0\<rparr>)) (\<lambda>(batches, s).
     and_then (for_batches lib batches s) (\<lambda>s.
     and_then (call_len lib s) (\<lambda>(n, s).
     and_then (py_truediv lib (running_loss s) n) (\<lambda>v.
     Inr (s\<lparr>trace := trace s @ [Ev_print v]\<rparr>)))))"

fun for_range ::
  "nat \<Rightarrow> (('w, 't, 'f) state \<Rightarrow> error + ('w, 't, 'f) state) \<Rightarrow> ('w, 't, 'f) state
     \<Rightarrow> error + ('w, 't, 'f) state" where
  "for_range 0 body s = Inr s"
| "for_range (Suc n) body s = and_then (body s) (for_range n body)"

definition epochs :: nat where
  "epochs = 5"

definition train ::
  "('w, 't, 'f) library \<Rightarrow> ('w, 't, 'f) state \<Rightarrow> error + ('w, 't, 'f) state" where
  "train lib s = for_range epochs (epoch lib) s"

text \<open>Projections of a trace: the values printed and the values \<^verbatim>\<open>loss.item()\<close>
  returned.\<close>

fun prints :: "('t, 'f) event list \<Rightarrow> 'f list" where
  "prints [] = []"
| "prints (Ev_print v # evs) = v # prints evs"
| "prints (ev # evs) = prints evs"

fun items :: "('t, 'f) event list \<Rightarrow> 'f list" where
  "items [] = []"
| "items (Ev_item t v # evs) = v # items evs"
| "items (ev # evs) = items evs"

fun call_name :: "('t, 'f) event \<Rightarrow> string" where
  "call_name (Ev_iter bs) = ''iter(trainloader)''"
| "call_name (Ev_len n) = ''len(trainloader)''"
| "call_name (Ev_view t) = ''images.view''"
| "call_name Ev_zero_grad = ''optimizer.zero_grad''"
| "call_name (Ev_model t) = ''model''"
| "call_name (Ev_criterion t u) = ''criterion''"
| "call_name (Ev_backward t) = ''loss.backward''"
| "call_name Ev_step = ''optimizer.step''"
| "call_name (Ev_item t v) = ''loss.item''"
| "call_name (Ev_print v) = ''print''"

definition body_events :: "'t \<Rightarrow> 't \<Rightarrow> 't \<Rightarrow> 't \<Rightarrow> 't \<Rightarrow> 'f \<Rightarrow> ('t, 'f) event list" where
  "body_events images labels flat outp loss v =
     [Ev_view images, Ev_zero_grad, Ev_model flat, Ev_criterion outp labels,
      Ev_backward loss, Ev_step, Ev_item loss v]"

text \<open>
  The events of one training iteration on an element: the element is a pair of images
  and labels, and the events are the seven library calls of the loop body, the first on
  the images, the criterion on the labels, the backward pass and \<^verbatim>\<open>loss.item()\<close> on
  the same loss.
\<close>

definition iteration_events :: "'t list \<Rightarrow> ('t, 'f) event list \<Rightarrow> bool" where
  "iteration_events element evs \<longleftrightarrow>
     (\<exists>images labels flat outp loss v.
        element = [images, labels] \<and>
        evs = [Ev_view images, Ev_zero_grad, Ev_model flat, Ev_criterion outp labels,
               Ev_backward loss, Ev_step, Ev_item loss v])"

text \<open>
  A small library on which the loop can be run: tensors and the library state are
  natural numbers, floats are rationals, a pass yields two batches, and
  \<^verbatim>\<open>optimizer.step()\<close> raises once the state has reached \<open>k\<close> (the state counts the
  steps taken).
\<close>

definition demo_lib :: "nat \<Rightarrow> (nat, nat, rat) library" where
  "demo_lib k =
     \<lparr>loader_iter = (\<lambda>w. Inr ([[1, 2], [3, 4]], w)),
      loader_len = (\<lambda>w. Inr (2, w)),
      view_flat = (\<lambda>t w. Inr (t, w)),
      zero_grad = (\<lambda>w. Inr w),
      model_call = (\<lambda>t w. Inr (t + w, w)),
      criterion = (\<lambda>out lab w. Inr (out + lab, w)),
      backward = (\<lambda>loss w. Inr w),
      step = (\<lambda>w. if w = k then Inl (Raised ''RuntimeError'') else Inr (Suc w)),
      item = (\<lambda>t w. Inr (of_nat t, w)),
      float_add = (+),
      float_div = (/),
      float_of_int = of_int,
      int_truediv = (\<lambda>i n. of_int i / of_int n)\<rparr>"

definition demo_state :: "(nat, nat, rat) state" where
  "demo_state = \<lparr>lib_state = 0, running_loss = PyInt 0, trace = []\<rparr>"

section \<open>The recorded execution\<close>

lemmas cell_defs =
  cell_In1_def cell_In2_def cell_In3_def cell_In4_def cell_In5_def cell_In6_def
  cell_In7_def cell_In9_def cell_In10_def cell_In11_def cell_In12_def cell_In13_def
  cell_In14_def cell_In15_def cell_In16_def cell_In18_def

lemma recorded_losses_In16:
  "recorded_losses cell_In16 =
     Some [18482103443094917 / 10 ^ 16, 7881349392219393 / 10 ^ 16,
           5054461888349386 / 10 ^ 16, 4187001598033824 / 10 ^ 16,
           3776651714672285 / 10 ^ 16]"
  by (simp add: recorded_losses_def printed_lines_def cell_In16_def parse_training_loss_def
      parse_decimal_def digit_val_def)

lemma no_seed_in_code: "filter (contains ''seed'') (code_lines code_cells) = []"
  by code_simp

text \<open>
  C1. The output recorded for the training cell In[16] consists of five lines
  \<^verbatim>\<open>Training loss: v\<close>, and the five values are strictly decreasing from each epoch
  to the next; no code line of the notebook mentions a seed.
\<close>

theorem recorded_losses_decrease:
  "\<exists>vs. recorded_losses cell_In16 = Some vs \<and> length vs = 5 \<and> strictly_decreasing vs \<and>
     length (printed_lines cell_In16) = 5 \<and>
     filter (contains ''seed'') (code_lines code_cells) = []"
proof -
  let ?vs = "[18482103443094917 / 10 ^ 16, 7881349392219393 / 10 ^ 16,
              5054461888349386 / 10 ^ 16, 4187001598033824 / 10 ^ 16,
              3776651714672285 / 10 ^ 16] :: rat list"
  have "recorded_losses cell_In16 = Some ?vs" by (rule recorded_losses_In16)
  moreover have "length ?vs = 5" by simp
  moreover have "strictly_decreasing ?vs" by simp
  moreover have "length (printed_lines cell_In16) = 5"
    by (simp add: printed_lines_def cell_In16_def)
  ultimately show ?thesis using no_seed_in_code by blast
qed

text \<open>
  C5. Every code cell of the notebook was executed (it has an execution counter), every
  output recorded for it is a stream output or a display output, and none is an error
  output.
\<close>

theorem no_cell_raised:
  "list_all (\<lambda>c. execution_count c \<noteq> None \<and>
                 list_all (\<lambda>out. is_stream out \<or> is_display out) (outputs c) \<and>
                 \<not> list_ex is_error (outputs c)) code_cells"
  by (simp add: code_cells_def cell_defs)

lemma no_handler_statement: "list_all (\<lambda>l. \<not> starts_with_keyword l) (code_lines code_cells)"
  by code_simp

lemma first_lines:
  "first_line ''datasets.MNIST('' (code_lines code_cells) = Some 10"
  "first_line ''nn.Sequential('' (code_lines code_cells) = Some 13"
  "first_line ''criterion('' (code_lines code_cells) = Some 30"
  "first_line ''.backward()'' (code_lines code_cells) = Some 64"
  "first_line ''optimizer.step()'' (code_lines code_cells) = Some 104"
  "first_line ''helper.view_classify('' (code_lines code_cells) = Some 148"
  by code_simp+

lemma number_of_code_lines: "length (code_lines code_cells) = 149"
  by (simp add: code_lines_def code_cells_def cell_defs)

text \<open>
  C4. Among the code lines of the notebook in document order, the first use of the
  dataset utility comes before the first definition of a layer stack, that before the
  first evaluation of a criterion, that before the first backward pass, that before the
  first optimizer step, and that before the call of the plotting helper, which is the
  last code line of the notebook. The cells were executed in document order.
\<close>

theorem pipeline_order:
  "in_order (map (\<lambda>p. first_line p (code_lines code_cells))
      [''datasets.MNIST('', ''nn.Sequential('', ''criterion('', ''.backward()'',
       ''optimizer.step()'', ''helper.view_classify('']) \<and>
   first_line ''helper.view_classify('' (code_lines code_cells) =
      Some (length (code_lines code_cells) - 1) \<and>
   in_order (map execution_count code_cells)"
proof (intro conjI)
  show "in_order (map (\<lambda>p. first_line p (code_lines code_cells))
      [''datasets.MNIST('', ''nn.Sequential('', ''criterion('', ''.backward()'',
       ''optimizer.step()'', ''helper.view_classify(''])"
    by (simp add: first_lines)
  show "first_line ''helper.view_classify('' (code_lines code_cells) =
      Some (length (code_lines code_cells) - 1)"
    by (simp add: first_lines number_of_code_lines)
  show "in_order (map execution_count code_cells)"
    by (simp add: code_cells_def cell_defs)
qed

section \<open>The training loop: what one iteration, one epoch and the whole loop do\<close>

lemma and_then_Inl [simp]: "and_then (Inl e) f = Inl e"
  by (simp add: and_then_def)

lemma and_then_Inr [simp]: "and_then (Inr x) f = f x"
  by (simp add: and_then_def)

lemma and_then_eq_Inr: "and_then r f = Inr y \<longleftrightarrow> (\<exists>x. r = Inr x \<and> f x = Inr y)"
  by (cases r) simp_all

lemma and_then_eq_Inl:
  "and_then r f = Inl e \<longleftrightarrow> r = Inl e \<or> (\<exists>x. r = Inr x \<and> f x = Inl e)"
  by (cases r) simp_all

lemma prints_append: "prints (xs @ ys) = prints xs @ prints ys"
  by (induction xs rule: prints.induct) simp_all

lemma items_append: "items (xs @ ys) = items xs @ items ys"
  by (induction xs rule: items.induct) simp_all

lemma call_view_Inr:
  "call_view lib x s = Inr (r, s') \<Longrightarrow>
     trace s' = trace s @ [Ev_view x] \<and> running_loss s' = running_loss s"
  by (auto simp: call_view_def record_call_def and_then_eq_Inr)

lemma call_zero_grad_Inr:
  "call_zero_grad lib s = Inr s' \<Longrightarrow>
     trace s' = trace s @ [Ev_zero_grad] \<and> running_loss s' = running_loss s"
  by (auto simp: call_zero_grad_def record_call_def and_then_eq_Inr)

lemma call_model_Inr:
  "call_model lib x s = Inr (r, s') \<Longrightarrow>
     trace s' = trace s @ [Ev_model x] \<and> running_loss s' = running_loss s"
  by (auto simp: call_model_def record_call_def and_then_eq_Inr)

lemma call_criterion_Inr:
  "call_criterion lib x y s = Inr (r, s') \<Longrightarrow>
     trace s' = trace s @ [Ev_criterion x y] \<and> running_loss s' = running_loss s"
  by (auto simp: call_criterion_def record_call_def and_then_eq_Inr)

lemma call_backward_Inr:
  "call_backward lib x s = Inr s' \<Longrightarrow>
     trace s' = trace s @ [Ev_backward x] \<and> running_loss s' = running_loss s"
  by (auto simp: call_backward_def record_call_def and_then_eq_Inr)

lemma call_step_Inr:
  "call_step lib s = Inr s' \<Longrightarrow>
     trace s' = trace s @ [Ev_step] \<and> running_loss s' = running_loss s"
  by (auto simp: call_step_def record_call_def and_then_eq_Inr)

lemma call_item_Inr:
  "call_item lib x s = Inr (v, s') \<Longrightarrow>
     trace s' = trace s @ [Ev_item x v] \<and> running_loss s' = running_loss s"
  by (auto simp: call_item_def record_call_def and_then_eq_Inr)

lemma loop_body_Inr:
  assumes "loop_body lib element s = Inr s'"
  shows "\<exists>images labels flat outp loss v.
           element = [images, labels] \<and>
           trace s' = trace s @ body_events images labels flat outp loss v \<and>
           running_loss s' = py_add lib (running_loss s) v"
proof -
  from assms obtain images labels where el: "element = [images, labels]"
    by (auto simp: loop_body_def split: list.splits)
  from assms el obtain flat s1 s2 outp s3 loss s4 s5 s6 v s7 where
    c1: "call_view lib images s = Inr (flat, s1)" and
    c2: "call_zero_grad lib s1 = Inr s2" and
    c3: "call_model lib flat s2 = Inr (outp, s3)" and
    c4: "call_criterion lib outp labels s3 = Inr (loss, s4)" and
    c5: "call_backward lib loss s4 = Inr s5" and
    c6: "call_step lib s5 = Inr s6" and
    c7: "call_item lib loss s6 = Inr (v, s7)" and
    fin: "s' = s7\<lparr>running_loss := py_add lib (running_loss s7) v\<rparr>"
    by (auto simp: loop_body_def and_then_eq_Inr)
  have "trace s' = trace s @ body_events images labels flat outp loss v"
    using call_view_Inr[OF c1] call_zero_grad_Inr[OF c2] call_model_Inr[OF c3]
      call_criterion_Inr[OF c4] call_backward_Inr[OF c5] call_step_Inr[OF c6]
      call_item_Inr[OF c7] fin
    by (simp add: body_events_def)
  moreover have "running_loss s' = py_add lib (running_loss s) v"
    using call_view_Inr[OF c1] call_zero_grad_Inr[OF c2] call_model_Inr[OF c3]
      call_criterion_Inr[OF c4] call_backward_Inr[OF c5] call_step_Inr[OF c6]
      call_item_Inr[OF c7] fin
    by simp
  ultimately show ?thesis using el by blast
qed

lemmas call_defs =
  call_iter_def call_len_def call_view_def call_zero_grad_def call_model_def
  call_criterion_def call_backward_def call_step_def call_item_def record_call_def

lemma call_iter_eq_Inr:
  "call_iter lib s = Inr (bs, s') \<longleftrightarrow>
     (\<exists>w. loader_iter lib (lib_state s) = Inr (bs, w) \<and>
          s' = s\<lparr>lib_state := w, trace := trace s @ [Ev_iter bs]\<rparr>)"
  by (auto simp: call_iter_def record_call_def and_then_eq_Inr)

lemma call_len_eq_Inr:
  "call_len lib s = Inr (n, s') \<longleftrightarrow>
     (\<exists>w. loader_len lib (lib_state s) = Inr (n, w) \<and>
          s' = s\<lparr>lib_state := w, trace := trace s @ [Ev_len n]\<rparr>)"
  by (auto simp: call_len_def record_call_def and_then_eq_Inr)

lemma call_view_eq_Inr:
  "call_view lib x s = Inr (r, s') \<longleftrightarrow>
     (\<exists>w. view_flat lib x (lib_state s) = Inr (r, w) \<and>
          s' = s\<lparr>lib_state := w, trace := trace s @ [Ev_view x]\<rparr>)"
  by (auto simp: call_view_def record_call_def and_then_eq_Inr)

lemma call_zero_grad_eq_Inr:
  "call_zero_grad lib s = Inr s' \<longleftrightarrow>
     (\<exists>w. zero_grad lib (lib_state s) = Inr w \<and>
          s' = s\<lparr>lib_state := w, trace := trace s @ [Ev_zero_grad]\<rparr>)"
  by (auto simp: call_zero_grad_def record_call_def and_then_eq_Inr)

lemma call_model_eq_Inr:
  "call_model lib x s = Inr (r, s') \<longleftrightarrow>
     (\<exists>w. model_call lib x (lib_state s) = Inr (r, w) \<and>
          s' = s\<lparr>lib_state := w, trace := trace s @ [Ev_model x]\<rparr>)"
  by (auto simp: call_model_def record_call_def and_then_eq_Inr)

lemma call_criterion_eq_Inr:
  "call_criterion lib x y s = Inr (r, s') \<longleftrightarrow>
     (\<exists>w. criterion lib x y (lib_state s) = Inr (r, w) \<and>
          s' = s\<lparr>lib_state := w, trace := trace s @ [Ev_criterion x y]\<rparr>)"
  by (auto simp: call_criterion_def record_call_def and_then_eq_Inr)

lemma call_backward_eq_Inr:
  "call_backward lib x s = Inr s' \<longleftrightarrow>
     (\<exists>w. backward lib x (lib_state s) = Inr w \<and>
          s' = s\<lparr>lib_state := w, trace := trace s @ [Ev_backward x]\<rparr>)"
  by (auto simp: call_backward_def record_call_def and_then_eq_Inr)

lemma call_step_eq_Inr:
  "call_step lib s = Inr s' \<longleftrightarrow>
     (\<exists>w. step lib (lib_state s) = Inr w \<and>
          s' = s\<lparr>lib_state := w, trace := trace s @ [Ev_step]\<rparr>)"
  by (auto simp: call_step_def record_call_def and_then_eq_Inr)

lemma call_item_eq_Inr:
  "call_item lib x s = Inr (v, s') \<longleftrightarrow>
     (\<exists>w. item lib x (lib_state s) = Inr (v, w) \<and>
          s' = s\<lparr>lib_state := w, trace := trace s @ [Ev_item x v]\<rparr>)"
  by (auto simp: call_item_def record_call_def and_then_eq_Inr)

lemma loop_body_eq_Inr:
  "loop_body lib element s = Inr s' \<longleftrightarrow>
     (\<exists>images labels flat w1 w2 outp w3 loss w4 w5 w6 v w7.
        element = [images, labels] \<and>
        view_flat lib images (lib_state s) = Inr (flat, w1) \<and>
        zero_grad lib w1 = Inr w2 \<and>
        model_call lib flat w2 = Inr (outp, w3) \<and>
        criterion lib outp labels w3 = Inr (loss, w4) \<and>
        backward lib loss w4 = Inr w5 \<and>
        step lib w5 = Inr w6 \<and>
        item lib loss w6 = Inr (v, w7) \<and>
        s' = s\<lparr>lib_state := w7,
               running_loss := py_add lib (running_loss s) v,
               trace := trace s @ [Ev_view images, Ev_zero_grad, Ev_model flat,
                 Ev_criterion outp labels, Ev_backward loss, Ev_step, Ev_item loss v]\<rparr>)"
  (is "?L \<longleftrightarrow> ?R")
proof
  assume run: ?L
  then obtain images labels where el: "element = [images, labels]"
    by (auto simp: loop_body_def split: list.splits)
  from run el obtain flat s1 s2 outp s3 loss s4 s5 s6 v s7 where
    c1: "call_view lib images s = Inr (flat, s1)" and
    c2: "call_zero_grad lib s1 = Inr s2" and
    c3: "call_model lib flat s2 = Inr (outp, s3)" and
    c4: "call_criterion lib outp labels s3 = Inr (loss, s4)" and
    c5: "call_backward lib loss s4 = Inr s5" and
    c6: "call_step lib s5 = Inr s6" and
    c7: "call_item lib loss s6 = Inr (v, s7)" and
    fin: "s' = s7\<lparr>running_loss := py_add lib (running_loss s7) v\<rparr>"
    by (auto simp: loop_body_def and_then_eq_Inr)
  from c1 obtain w1 where l1: "view_flat lib images (lib_state s) = Inr (flat, w1)"
    and s1: "s1 = s\<lparr>lib_state := w1, trace := trace s @ [Ev_view images]\<rparr>"
    by (auto simp: call_view_eq_Inr)
  from c2 s1 obtain w2 where l2: "zero_grad lib w1 = Inr w2"
    and s2: "s2 = s1\<lparr>lib_state := w2, trace := trace s1 @ [Ev_zero_grad]\<rparr>"
    by (auto simp: call_zero_grad_eq_Inr)
  from c3 s2 obtain w3 where l3: "model_call lib flat w2 = Inr (outp, w3)"
    and s3: "s3 = s2\<lparr>lib_state := w3, trace := trace s2 @ [Ev_model flat]\<rparr>"
    by (auto simp: call_model_eq_Inr)
  from c4 s3 obtain w4 where l4: "criterion lib outp labels w3 = Inr (loss, w4)"
    and s4: "s4 = s3\<lparr>lib_state := w4, trace := trace s3 @ [Ev_criterion outp labels]\<rparr>"
    by (auto simp: call_criterion_eq_Inr)
  from c5 s4 obtain w5 where l5: "backward lib loss w4 = Inr w5"
    and s5: "s5 = s4\<lparr>lib_state := w5, trace := trace s4 @ [Ev_backward loss]\<rparr>"
    by (auto simp: call_backward_eq_Inr)
  from c6 s5 obtain w6 where l6: "step lib w5 = Inr w6"
    and s6: "s6 = s5\<lparr>lib_state := w6, trace := trace s5 @ [Ev_step]\<rparr>"
    by (auto simp: call_step_eq_Inr)
  from c7 s6 obtain w7 where l7: "item lib loss w6 = Inr (v, w7)"
    and s7: "s7 = s6\<lparr>lib_state := w7, trace := trace s6 @ [Ev_item loss v]\<rparr>"
    by (auto simp: call_item_eq_Inr)
  have "s' = s\<lparr>lib_state := w7,
               running_loss := py_add lib (running_loss s) v,
               trace := trace s @ [Ev_view images, Ev_zero_grad, Ev_model flat,
                 Ev_criterion outp labels, Ev_backward loss, Ev_step, Ev_item loss v]\<rparr>"
    by (simp add: fin s7 s6 s5 s4 s3 s2 s1)
  with el l1 l2 l3 l4 l5 l6 l7 show ?R by blast
next
  assume ?R
  then obtain images labels flat w1 w2 outp w3 loss w4 w5 w6 v w7 where
    el: "element = [images, labels]" and
    l1: "view_flat lib images (lib_state s) = Inr (flat, w1)" and
    l2: "zero_grad lib w1 = Inr w2" and
    l3: "model_call lib flat w2 = Inr (outp, w3)" and
    l4: "criterion lib outp labels w3 = Inr (loss, w4)" and
    l5: "backward lib loss w4 = Inr w5" and
    l6: "step lib w5 = Inr w6" and
    l7: "item lib loss w6 = Inr (v, w7)" and
    fin: "s' = s\<lparr>lib_state := w7,
               running_loss := py_add lib (running_loss s) v,
               trace := trace s @ [Ev_view images, Ev_zero_grad, Ev_model flat,
                 Ev_criterion outp labels, Ev_backward loss, Ev_step, Ev_item loss v]\<rparr>"
    by blast
  show ?L
    by (simp add: el l1 l2 l3 l4 l5 l6 l7 fin loop_body_def call_defs)
qed

lemma epoch_eq_Inr:
  "epoch lib s = Inr s' \<longleftrightarrow>
     (\<exists>bs w1 s2 n w3 v.
        loader_iter lib (lib_state s) = Inr (bs, w1) \<and>
        for_batches lib bs
          (s\<lparr>running_loss := PyInt 0, lib_state := w1, trace := trace s @ [Ev_iter bs]\<rparr>) = Inr s2 \<and>
        loader_len lib (lib_state s2) = Inr (n, w3) \<and>
        py_truediv lib (running_loss s2) n = Inr v \<and>
        s' = s2\<lparr>lib_state := w3, trace := trace s2 @ [Ev_len n, Ev_print v]\<rparr>)"
  (is "?L \<longleftrightarrow> ?R")
proof
  assume ?L
  then obtain bs s1 s2 n s3 v where
    c1: "call_iter lib (s\<lparr>running_loss := PyInt 0\<rparr>) = Inr (bs, s1)" and
    c2: "for_batches lib bs s1 = Inr s2" and
    c3: "call_len lib s2 = Inr (n, s3)" and
    c4: "py_truediv lib (running_loss s3) n = Inr v" and
    fin: "s' = s3\<lparr>trace := trace s3 @ [Ev_print v]\<rparr>"
    by (auto simp: epoch_def and_then_eq_Inr)
  from c1 obtain w1 where l1: "loader_iter lib (lib_state s) = Inr (bs, w1)"
    and s1: "s1 = s\<lparr>running_loss := PyInt 0, lib_state := w1, trace := trace s @ [Ev_iter bs]\<rparr>"
    by (auto simp: call_iter_eq_Inr)
  from c3 obtain w3 where l3: "loader_len lib (lib_state s2) = Inr (n, w3)"
    and s3: "s3 = s2\<lparr>lib_state := w3, trace := trace s2 @ [Ev_len n]\<rparr>"
    by (auto simp: call_len_eq_Inr)
  have "py_truediv lib (running_loss s2) n = Inr v" using c4 s3 by simp
  moreover have "s' = s2\<lparr>lib_state := w3, trace := trace s2 @ [Ev_len n, Ev_print v]\<rparr>"
    by (simp add: fin s3)
  ultimately show ?R using l1 c2 s1 l3 by blast
next
  assume ?R
  then obtain bs w1 s2 n w3 v where
    l1: "loader_iter lib (lib_state s) = Inr (bs, w1)" and
    c2: "for_batches lib bs
          (s\<lparr>running_loss := PyInt 0, lib_state := w1, trace := trace s @ [Ev_iter bs]\<rparr>) = Inr s2" and
    l3: "loader_len lib (lib_state s2) = Inr (n, w3)" and
    c4: "py_truediv lib (running_loss s2) n = Inr v" and
    fin: "s' = s2\<lparr>lib_state := w3, trace := trace s2 @ [Ev_len n, Ev_print v]\<rparr>"
    by blast
  show ?L
    using c2 by (simp add: l1 l3 c4 fin epoch_def call_defs)
qed

lemma for_range_eq_Inr:
  "for_range n body s = Inr s' \<longleftrightarrow>
     (\<exists>ss. length ss = n \<and> last (s # ss) = s' \<and>
        (\<forall>k<n. body ((s # ss) ! k) = Inr (ss ! k)))"
proof (induction n arbitrary: s)
  case 0
  then show ?case by auto
next
  case (Suc n)
  show ?case
  proof
    assume "for_range (Suc n) body s = Inr s'"
    then obtain s1 where b: "body s = Inr s1" and r: "for_range n body s1 = Inr s'"
      by (auto simp: and_then_eq_Inr)
    from r Suc.IH[of s1] obtain ss where
      l: "length ss = n" and e: "last (s1 # ss) = s'" and
      c: "\<forall>k<n. body ((s1 # ss) ! k) = Inr (ss ! k)"
      by blast
    have "\<forall>k<Suc n. body ((s # s1 # ss) ! k) = Inr ((s1 # ss) ! k)"
    proof (intro allI impI)
      fix k assume "k < Suc n"
      then show "body ((s # s1 # ss) ! k) = Inr ((s1 # ss) ! k)"
        using b c by (cases k) simp_all
    qed
    moreover have "length (s1 # ss) = Suc n" using l by simp
    moreover have "last (s # s1 # ss) = s'" using e by simp
    ultimately show "\<exists>ss. length ss = Suc n \<and> last (s # ss) = s' \<and>
        (\<forall>k<Suc n. body ((s # ss) ! k) = Inr (ss ! k))"
      by blast
  next
    assume "\<exists>ss. length ss = Suc n \<and> last (s # ss) = s' \<and>
        (\<forall>k<Suc n. body ((s # ss) ! k) = Inr (ss ! k))"
    then obtain ss where l: "length ss = Suc n" and e: "last (s # ss) = s'" and
      c: "\<forall>k<Suc n. body ((s # ss) ! k) = Inr (ss ! k)"
      by blast
    from l obtain s1 ss1 where ss: "ss = s1 # ss1" by (cases ss) simp_all
    from c ss have b: "body s = Inr s1" by auto
    have "\<forall>k<n. body ((s1 # ss1) ! k) = Inr (ss1 ! k)"
    proof (intro allI impI)
      fix k assume "k < n"
      then have "Suc k < Suc n" by simp
      with c have "body ((s # ss) ! Suc k) = Inr (ss ! Suc k)" by blast
      then show "body ((s1 # ss1) ! k) = Inr (ss1 ! k)" using ss by simp
    qed
    moreover have "length ss1 = n" using l ss by simp
    moreover have "last (s1 # ss1) = s'" using e ss by simp
    ultimately have "for_range n body s1 = Inr s'" using Suc.IH[of s1] by blast
    with b show "for_range (Suc n) body s = Inr s'" by simp
  qed
qed

lemma for_batches_eq_Inr:
  "for_batches lib bs s = Inr s' \<longleftrightarrow>
     (\<exists>ss. length ss = length bs \<and> last (s # ss) = s' \<and>
        (\<forall>i<length bs. loop_body lib (bs ! i) ((s # ss) ! i) = Inr (ss ! i)))"
proof (induction bs arbitrary: s)
  case Nil
  then show ?case by auto
next
  case (Cons b bs)
  show ?case
  proof
    assume "for_batches lib (b # bs) s = Inr s'"
    then obtain s1 where b1: "loop_body lib b s = Inr s1" and r: "for_batches lib bs s1 = Inr s'"
      by (auto simp: and_then_eq_Inr)
    from r Cons.IH[of s1] obtain ss where
      l: "length ss = length bs" and e: "last (s1 # ss) = s'" and
      c: "\<forall>i<length bs. loop_body lib (bs ! i) ((s1 # ss) ! i) = Inr (ss ! i)"
      by blast
    have "\<forall>i<length (b # bs). loop_body lib ((b # bs) ! i) ((s # s1 # ss) ! i) = Inr ((s1 # ss) ! i)"
    proof (intro allI impI)
      fix i assume "i < length (b # bs)"
      then show "loop_body lib ((b # bs) ! i) ((s # s1 # ss) ! i) = Inr ((s1 # ss) ! i)"
        using b1 c by (cases i) simp_all
    qed
    moreover have "length (s1 # ss) = length (b # bs)" using l by simp
    moreover have "last (s # s1 # ss) = s'" using e by simp
    ultimately show "\<exists>ss. length ss = length (b # bs) \<and> last (s # ss) = s' \<and>
        (\<forall>i<length (b # bs). loop_body lib ((b # bs) ! i) ((s # ss) ! i) = Inr (ss ! i))"
      by blast
  next
    assume "\<exists>ss. length ss = length (b # bs) \<and> last (s # ss) = s' \<and>
        (\<forall>i<length (b # bs). loop_body lib ((b # bs) ! i) ((s # ss) ! i) = Inr (ss ! i))"
    then obtain ss where l: "length ss = length (b # bs)" and e: "last (s # ss) = s'" and
      c: "\<forall>i<length (b # bs). loop_body lib ((b # bs) ! i) ((s # ss) ! i) = Inr (ss ! i)"
      by blast
    from l obtain s1 ss1 where ss: "ss = s1 # ss1" by (cases ss) simp_all
    from c ss have b1: "loop_body lib b s = Inr s1" by auto
    have "\<forall>i<length bs. loop_body lib (bs ! i) ((s1 # ss1) ! i) = Inr (ss1 ! i)"
    proof (intro allI impI)
      fix i assume "i < length bs"
      then have "Suc i < length (b # bs)" by simp
      with c have "loop_body lib ((b # bs) ! Suc i) ((s # ss) ! Suc i) = Inr (ss ! Suc i)"
        by blast
      then show "loop_body lib (bs ! i) ((s1 # ss1) ! i) = Inr (ss1 ! i)" using ss by simp
    qed
    moreover have "length ss1 = length bs" using l ss by simp
    moreover have "last (s1 # ss1) = s'" using e ss by simp
    ultimately have "for_batches lib bs s1 = Inr s'" using Cons.IH[of s1] by blast
    with b1 show "for_batches lib (b # bs) s = Inr s'" by simp
  qed
qed

lemma items_iteration_events: "iteration_events b evs \<Longrightarrow> length (items evs) = 1"
  by (auto simp: iteration_events_def)

lemma prints_iteration_events: "iteration_events b evs \<Longrightarrow> prints evs = []"
  by (auto simp: iteration_events_def)

lemma for_batches_blocks:
  "for_batches lib bs s = Inr s' \<Longrightarrow>
     \<exists>blocks. trace s' = trace s @ concat blocks \<and> list_all2 iteration_events bs blocks \<and>
       length (items (concat blocks)) = length bs \<and> prints (concat blocks) = [] \<and>
       running_loss s' = foldl (py_add lib) (running_loss s) (items (concat blocks))"
proof (induction bs arbitrary: s)
  case Nil
  then show ?case by simp
next
  case (Cons b bs)
  from Cons.prems obtain s1 where b1: "loop_body lib b s = Inr s1"
    and rest: "for_batches lib bs s1 = Inr s'"
    by (auto simp: and_then_eq_Inr)
  from loop_body_Inr[OF b1] obtain images labels flat outp loss v where
    el: "b = [images, labels]" and
    t1: "trace s1 = trace s @ body_events images labels flat outp loss v" and
    r1: "running_loss s1 = py_add lib (running_loss s) v"
    by blast
  let ?blk = "body_events images labels flat outp loss v"
  have ev: "iteration_events b ?blk"
    unfolding iteration_events_def body_events_def using el by blast
  from Cons.IH[OF rest] obtain blocks where
    t2: "trace s' = trace s1 @ concat blocks" and
    a2: "list_all2 iteration_events bs blocks" and
    l2: "length (items (concat blocks)) = length bs" and
    p2: "prints (concat blocks) = []" and
    r2: "running_loss s' = foldl (py_add lib) (running_loss s1) (items (concat blocks))"
    by blast
  have "trace s' = trace s @ concat (?blk # blocks)" using t1 t2 by simp
  moreover have "list_all2 iteration_events (b # bs) (?blk # blocks)" using ev a2 by simp
  moreover have "length (items (concat (?blk # blocks))) = length (b # bs)"
    using l2 by (simp add: items_append body_events_def)
  moreover have "prints (concat (?blk # blocks)) = []"
    using p2 by (simp add: prints_append body_events_def)
  moreover have "running_loss s' =
      foldl (py_add lib) (running_loss s) (items (concat (?blk # blocks)))"
    using r1 r2 by (simp add: items_append body_events_def)
  ultimately show ?case by blast
qed

lemma epoch_pass:
  assumes "epoch lib s = Inr s'"
  shows "\<exists>bs w1 s2 blocks n w3 v.
           loader_iter lib (lib_state s) = Inr (bs, w1) \<and>
           for_batches lib bs
             (s\<lparr>running_loss := PyInt 0, lib_state := w1, trace := trace s @ [Ev_iter bs]\<rparr>) =
             Inr s2 \<and>
           trace s2 = trace s @ Ev_iter bs # concat blocks \<and>
           list_all2 iteration_events bs blocks \<and>
           length (items (concat blocks)) = length bs \<and>
           prints (concat blocks) = [] \<and>
           running_loss s2 = foldl (py_add lib) (PyInt 0) (items (concat blocks)) \<and>
           loader_len lib (lib_state s2) = Inr (n, w3) \<and>
           py_truediv lib (running_loss s2) n = Inr v \<and>
           s' = s2\<lparr>lib_state := w3, trace := trace s2 @ [Ev_len n, Ev_print v]\<rparr>"
proof -
  from assms obtain bs w1 s2 n w3 v where
    l1: "loader_iter lib (lib_state s) = Inr (bs, w1)" and
    c2: "for_batches lib bs
          (s\<lparr>running_loss := PyInt 0, lib_state := w1, trace := trace s @ [Ev_iter bs]\<rparr>) = Inr s2" and
    l3: "loader_len lib (lib_state s2) = Inr (n, w3)" and
    c4: "py_truediv lib (running_loss s2) n = Inr v" and
    fin: "s' = s2\<lparr>lib_state := w3, trace := trace s2 @ [Ev_len n, Ev_print v]\<rparr>"
    unfolding epoch_eq_Inr by blast
  from for_batches_blocks[OF c2] obtain blocks where
    t: "trace s2 = trace s @ Ev_iter bs # concat blocks" and
    a: "list_all2 iteration_events bs blocks" and
    l: "length (items (concat blocks)) = length bs" and
    p: "prints (concat blocks) = []" and
    r: "running_loss s2 = foldl (py_add lib) (PyInt 0) (items (concat blocks))"
    by auto
  from l1 c2 t a l p r l3 c4 fin show ?thesis by blast
qed

lemmas demo_defs =
  demo_lib_def demo_state_def loop_body_def epoch_def call_iter_def call_len_def call_view_def
  call_zero_grad_def call_model_def call_criterion_def call_backward_def call_step_def
  call_item_def record_call_def py_add_def py_truediv_def

lemma demo_loop_body:
  "loop_body (demo_lib 10) [1, 2] demo_state =
     Inr \<lparr>lib_state = 1, running_loss = PyFloat 3,
          trace = [Ev_view 1, Ev_zero_grad, Ev_model 1, Ev_criterion 1 2, Ev_backward 3,
                   Ev_step, Ev_item 3 3]\<rparr>"
  by (simp add: demo_defs)

text \<open>
  C2, as the claim states it, fails: one iteration of the loop makes seven library
  calls, not five, and it changes the notebook's own accumulator \<open>running_loss\<close>. Run on
  the small library with the element \<open>[1, 2]\<close>:
\<close>

theorem loop_body_not_only_five_steps:
  "map_sum id (\<lambda>s. map call_name (trace s)) (loop_body (demo_lib 10) [1, 2] demo_state) =
     Inr [''images.view'', ''optimizer.zero_grad'', ''model'', ''criterion'', ''loss.backward'',
          ''optimizer.step'', ''loss.item''] \<and>
   map_sum id (\<lambda>s. map call_name (trace s)) (loop_body (demo_lib 10) [1, 2] demo_state) \<noteq>
     Inr [''optimizer.zero_grad'', ''model'', ''criterion'', ''loss.backward'', ''optimizer.step''] \<and>
   map_sum id running_loss (loop_body (demo_lib 10) [1, 2] demo_state) \<noteq>
     Inr (running_loss demo_state)"
  unfolding demo_loop_body by (simp add: demo_state_def)

text \<open>
  C2, as the code has it. An iteration of the inner loop completes exactly when its
  element unpacks into \<open>images\<close> and \<open>labels\<close> and each of these library calls returns,
  made once each, in this order, each in the library state the previous one left and on
  the results of the earlier ones: flatten the images, zero the gradients, forward pass
  on the flattened images, criterion on the model's output and the labels, backward pass
  from the loss, optimizer step, and \<^verbatim>\<open>loss.item()\<close> on the loss. The iteration adds the
  value of \<^verbatim>\<open>loss.item()\<close> to \<open>running_loss\<close> and does nothing else. The inner loop
  runs this iteration for each element of the pass in order, each from the state the
  previous one left. An epoch completes exactly when starting the pass, the inner loop
  from \<open>running_loss = 0\<close>, \<^verbatim>\<open>len(trainloader)\<close> and the division return; it then
  prints the quotient. The training loop runs \<open>epochs\<close> epochs, each from the state the
  previous one left.
\<close>

theorem loop_body_steps:
  "(loop_body lib element s = Inr s' \<longleftrightarrow>
     (\<exists>images labels flat w1 w2 outp w3 loss w4 w5 w6 v w7.
        element = [images, labels] \<and>
        view_flat lib images (lib_state s) = Inr (flat, w1) \<and>
        zero_grad lib w1 = Inr w2 \<and>
        model_call lib flat w2 = Inr (outp, w3) \<and>
        criterion lib outp labels w3 = Inr (loss, w4) \<and>
        backward lib loss w4 = Inr w5 \<and>
        step lib w5 = Inr w6 \<and>
        item lib loss w6 = Inr (v, w7) \<and>
        s' = s\<lparr>lib_state := w7,
               running_loss := py_add lib (running_loss s) v,
               trace := trace s @ [Ev_view images, Ev_zero_grad, Ev_model flat,
                 Ev_criterion outp labels, Ev_backward loss, Ev_step, Ev_item loss v]\<rparr>)) \<and>
   (for_batches lib batches s = Inr s' \<longleftrightarrow>
     (\<exists>ss. length ss = length batches \<and> last (s # ss) = s' \<and>
        (\<forall>i<length batches. loop_body lib (batches ! i) ((s # ss) ! i) = Inr (ss ! i)))) \<and>
   (epoch lib s = Inr s' \<longleftrightarrow>
     (\<exists>bs w1 s2 n w3 v.
        loader_iter lib (lib_state s) = Inr (bs, w1) \<and>
        for_batches lib bs
          (s\<lparr>running_loss := PyInt 0, lib_state := w1, trace := trace s @ [Ev_iter bs]\<rparr>) =
          Inr s2 \<and>
        loader_len lib (lib_state s2) = Inr (n, w3) \<and>
        py_truediv lib (running_loss s2) n = Inr v \<and>
        s' = s2\<lparr>lib_state := w3, trace := trace s2 @ [Ev_len n, Ev_print v]\<rparr>)) \<and>
   (train lib s = Inr s' \<longleftrightarrow>
     (\<exists>ss. length ss = epochs \<and> last (s # ss) = s' \<and>
        (\<forall>k<epochs. epoch lib ((s # ss) ! k) = Inr (ss ! k))))"
proof -
  note a = loop_body_eq_Inr[of lib element s s']
  note b = for_batches_eq_Inr[of lib batches s s']
  note c = epoch_eq_Inr[of lib s s']
  have d: "train lib s = Inr s' \<longleftrightarrow>
     (\<exists>ss. length ss = epochs \<and> last (s # ss) = s' \<and>
        (\<forall>k<epochs. epoch lib ((s # ss) ! k) = Inr (ss ! k)))"
    unfolding train_def by (rule for_range_eq_Inr)
  show ?thesis
    apply (rule conjI[OF a])
    apply (rule conjI[OF b])
    apply (rule conjI[OF c])
    apply (rule d)
    done
qed

theorem loop_body_steps_witness:
  "loop_body (demo_lib 10) [1, 2] demo_state =
     Inr \<lparr>lib_state = 1, running_loss = PyFloat 3,
          trace = [Ev_view 1, Ev_zero_grad, Ev_model 1, Ev_criterion 1 2, Ev_backward 3,
                   Ev_step, Ev_item 3 3]\<rparr> \<and>
   (\<exists>images labels flat w1 w2 outp w3 loss w4 w5 w6 v w7.
      [1, 2] = [images, labels] \<and>
      view_flat (demo_lib 10) images (lib_state demo_state) = Inr (flat, w1) \<and>
      zero_grad (demo_lib 10) w1 = Inr w2 \<and>
      model_call (demo_lib 10) flat w2 = Inr (outp, w3) \<and>
      criterion (demo_lib 10) outp labels w3 = Inr (loss, w4) \<and>
      backward (demo_lib 10) loss w4 = Inr w5 \<and>
      step (demo_lib 10) w5 = Inr w6 \<and>
      item (demo_lib 10) loss w6 = Inr (v, w7) \<and>
      \<lparr>lib_state = 1, running_loss = PyFloat 3,
       trace = [Ev_view 1, Ev_zero_grad, Ev_model 1, Ev_criterion 1 2, Ev_backward 3,
                Ev_step, Ev_item 3 3]\<rparr> =
        demo_state\<lparr>lib_state := w7,
          running_loss := py_add (demo_lib 10) (running_loss demo_state) v,
          trace := trace demo_state @ [Ev_view images, Ev_zero_grad, Ev_model flat,
            Ev_criterion outp labels, Ev_backward loss, Ev_step, Ev_item loss v]\<rparr>)"
  using iffD1[OF conjunct1[OF loop_body_steps] demo_loop_body] demo_loop_body
  by (rule conjI[rotated])


lemma demo_train: "\<exists>s'. train (demo_lib 10) demo_state = Inr s'"
  by (simp add: train_def epochs_def eval_nat_numeral demo_defs)



text \<open>
  C3. The loop runs \<open>epochs = 5\<close> iterations. If it completes, it has gone through five
  epochs, each from the state the previous one left, and each of them is one full pass:
  it starts one iteration of the loader, which yields the elements \<open>bs\<close>; it performs
  one training iteration for each element of \<open>bs\<close>, in order, and nothing else; then it
  asks the loader's length and prints one line. The recorded output of the cell has five
  lines.
\<close>

theorem five_epochs_of_full_passes:
  assumes "train lib s = Inr s'"
  shows "epochs = 5 \<and>
         (\<exists>ss. length ss = epochs \<and> last (s # ss) = s' \<and>
            (\<forall>k<epochs. \<exists>bs w blocks n v.
               loader_iter lib (lib_state ((s # ss) ! k)) = Inr (bs, w) \<and>
               list_all2 iteration_events bs blocks \<and>
               trace (ss ! k) =
                 trace ((s # ss) ! k) @ Ev_iter bs # concat blocks @ [Ev_len n, Ev_print v])) \<and>
         length (printed_lines cell_In16) = epochs"
proof -
  from assms have "for_range epochs (epoch lib) s = Inr s'" by (simp add: train_def)
  then obtain ss where l: "length ss = epochs" and e: "last (s # ss) = s'" and
    c: "\<forall>k<epochs. epoch lib ((s # ss) ! k) = Inr (ss ! k)"
    unfolding for_range_eq_Inr by blast
  have "\<forall>k<epochs. \<exists>bs w blocks n v.
          loader_iter lib (lib_state ((s # ss) ! k)) = Inr (bs, w) \<and>
          list_all2 iteration_events bs blocks \<and>
          trace (ss ! k) =
            trace ((s # ss) ! k) @ Ev_iter bs # concat blocks @ [Ev_len n, Ev_print v]"
  proof (intro allI impI)
    fix k assume "k < epochs"
    with c have run: "epoch lib ((s # ss) ! k) = Inr (ss ! k)" by blast
    from epoch_pass[OF run] obtain bs w1 s2 blocks n w3 v where
      l1: "loader_iter lib (lib_state ((s # ss) ! k)) = Inr (bs, w1)" and
      t: "trace s2 = trace ((s # ss) ! k) @ Ev_iter bs # concat blocks" and
      a: "list_all2 iteration_events bs blocks" and
      fin: "ss ! k = s2\<lparr>lib_state := w3, trace := trace s2 @ [Ev_len n, Ev_print v]\<rparr>"
      by blast
    have "trace (ss ! k) =
        trace ((s # ss) ! k) @ Ev_iter bs # concat blocks @ [Ev_len n, Ev_print v]"
      using fin t by simp
    with l1 a show "\<exists>bs w blocks n v.
          loader_iter lib (lib_state ((s # ss) ! k)) = Inr (bs, w) \<and>
          list_all2 iteration_events bs blocks \<and>
          trace (ss ! k) =
            trace ((s # ss) ! k) @ Ev_iter bs # concat blocks @ [Ev_len n, Ev_print v]"
      by blast
  qed
  with l e have "\<exists>ss. length ss = epochs \<and> last (s # ss) = s' \<and>
            (\<forall>k<epochs. \<exists>bs w blocks n v.
               loader_iter lib (lib_state ((s # ss) ! k)) = Inr (bs, w) \<and>
               list_all2 iteration_events bs blocks \<and>
               trace (ss ! k) =
                 trace ((s # ss) ! k) @ Ev_iter bs # concat blocks @ [Ev_len n, Ev_print v])"
    by blast
  moreover have "length (printed_lines cell_In16) = epochs"
    by (simp add: printed_lines_def cell_In16_def epochs_def)
  moreover have "epochs = 5" by (simp add: epochs_def)
  ultimately show ?thesis by blast
qed

theorem five_epochs_of_full_passes_witness:
  "\<exists>s'. train (demo_lib 10) demo_state = Inr s' \<and> epochs = 5 \<and>
     (\<exists>ss. length ss = epochs \<and> last (demo_state # ss) = s' \<and>
        (\<forall>k<epochs. \<exists>bs w blocks n v.
           loader_iter (demo_lib 10) (lib_state ((demo_state # ss) ! k)) = Inr (bs, w) \<and>
           list_all2 iteration_events bs blocks \<and>
           trace (ss ! k) =
             trace ((demo_state # ss) ! k) @ Ev_iter bs # concat blocks @
               [Ev_len n, Ev_print v])) \<and>
     length (printed_lines cell_In16) = epochs"
proof -
  from demo_train obtain s' where run: "train (demo_lib 10) demo_state = Inr s'" by blast
  from five_epochs_of_full_passes[OF run] run show ?thesis by blast
qed

section \<open>Exceptions\<close>

text \<open>
  A call fails exactly when the library operation it invokes fails, and with the same
  exception; the division fails exactly when \<^verbatim>\<open>len(trainloader)\<close> is zero.
\<close>

lemma call_eq_Inl:
  "call_iter lib s = Inl e \<longleftrightarrow> loader_iter lib (lib_state s) = Inl e"
  "call_len lib s = Inl e \<longleftrightarrow> loader_len lib (lib_state s) = Inl e"
  "call_view lib images s = Inl e \<longleftrightarrow> view_flat lib images (lib_state s) = Inl e"
  "call_zero_grad lib s = Inl e \<longleftrightarrow> zero_grad lib (lib_state s) = Inl e"
  "call_model lib images s = Inl e \<longleftrightarrow> model_call lib images (lib_state s) = Inl e"
  "call_criterion lib outp labels s = Inl e \<longleftrightarrow> criterion lib outp labels (lib_state s) = Inl e"
  "call_backward lib loss s = Inl e \<longleftrightarrow> backward lib loss (lib_state s) = Inl e"
  "call_step lib s = Inl e \<longleftrightarrow> step lib (lib_state s) = Inl e"
  "call_item lib loss s = Inl e \<longleftrightarrow> item lib loss (lib_state s) = Inl e"
  by (auto simp: call_iter_def call_len_def call_view_def call_zero_grad_def call_model_def
      call_criterion_def call_backward_def call_step_def call_item_def and_then_eq_Inl)

lemma py_truediv_eq_Inl: "py_truediv lib a n = Inl e \<longleftrightarrow> n = 0 \<and> e = ZeroDivisionError"
  by (auto simp: py_truediv_def split: pynum.splits)

lemma loop_body_eq_Inl:
  "loop_body lib [images, labels] s = Inl e \<longleftrightarrow>
     call_view lib images s = Inl e \<or>
     (\<exists>flat s1. call_view lib images s = Inr (flat, s1) \<and>
       (call_zero_grad lib s1 = Inl e \<or>
       (\<exists>s2. call_zero_grad lib s1 = Inr s2 \<and>
         (call_model lib flat s2 = Inl e \<or>
         (\<exists>outp s3. call_model lib flat s2 = Inr (outp, s3) \<and>
           (call_criterion lib outp labels s3 = Inl e \<or>
           (\<exists>loss s4. call_criterion lib outp labels s3 = Inr (loss, s4) \<and>
             (call_backward lib loss s4 = Inl e \<or>
             (\<exists>s5. call_backward lib loss s4 = Inr s5 \<and>
               (call_step lib s5 = Inl e \<or>
               (\<exists>s6. call_step lib s5 = Inr s6 \<and>
                  call_item lib loss s6 = Inl e)))))))))))"
  by (auto simp: loop_body_def and_then_eq_Inl)

lemma for_batches_eq_Inl:
  "for_batches lib bs s = Inl e \<longleftrightarrow>
     (\<exists>before b rest s1. bs = before @ b # rest \<and> for_batches lib before s = Inr s1 \<and>
        loop_body lib b s1 = Inl e)"
proof (induction bs arbitrary: s)
  case Nil
  then show ?case by simp
next
  case (Cons a bs)
  show ?case
  proof
    assume "for_batches lib (a # bs) s = Inl e"
    then consider "loop_body lib a s = Inl e"
      | s0 where "loop_body lib a s = Inr s0" "for_batches lib bs s0 = Inl e"
      by (auto simp: and_then_eq_Inl)
    then show "\<exists>before b rest s1. a # bs = before @ b # rest \<and>
        for_batches lib before s = Inr s1 \<and> loop_body lib b s1 = Inl e"
    proof cases
      case 1
      have "a # bs = [] @ a # bs" by simp
      moreover have "for_batches lib [] s = Inr s" by simp
      ultimately show ?thesis using 1 by blast
    next
      case 2
      from 2(2) Cons.IH[of s0] obtain before b rest s1 where
        bs: "bs = before @ b # rest" and ok: "for_batches lib before s0 = Inr s1" and
        bad: "loop_body lib b s1 = Inl e"
        by blast
      have "a # bs = (a # before) @ b # rest" using bs by simp
      moreover have "for_batches lib (a # before) s = Inr s1" using 2(1) ok by simp
      ultimately show ?thesis using bad by blast
    qed
  next
    assume "\<exists>before b rest s1. a # bs = before @ b # rest \<and>
        for_batches lib before s = Inr s1 \<and> loop_body lib b s1 = Inl e"
    then obtain before b rest s1 where
      eq: "a # bs = before @ b # rest" and ok: "for_batches lib before s = Inr s1" and
      bad: "loop_body lib b s1 = Inl e"
      by blast
    show "for_batches lib (a # bs) s = Inl e"
    proof (cases before)
      case Nil
      with eq ok bad show ?thesis by simp
    next
      case (Cons a' before')
      with eq have a: "a' = a" and bs: "bs = before' @ b # rest" by simp_all
      from ok Cons a obtain s0 where s0: "loop_body lib a s = Inr s0"
        and ok': "for_batches lib before' s0 = Inr s1"
        by (auto simp: and_then_eq_Inr)
      from bs ok' bad have "for_batches lib bs s0 = Inl e"
        using Cons.IH[of s0] by blast
      with s0 show ?thesis by simp
    qed
  qed
qed

lemma for_range_eq_Inl:
  "for_range n body s = Inl e \<longleftrightarrow>
     (\<exists>k s1. k < n \<and> for_range k body s = Inr s1 \<and> body s1 = Inl e)"
proof (induction n arbitrary: s)
  case 0
  then show ?case by simp
next
  case (Suc n)
  show ?case
  proof
    assume "for_range (Suc n) body s = Inl e"
    then consider "body s = Inl e"
      | s0 where "body s = Inr s0" "for_range n body s0 = Inl e"
      by (auto simp: and_then_eq_Inl)
    then show "\<exists>k s1. k < Suc n \<and> for_range k body s = Inr s1 \<and> body s1 = Inl e"
    proof cases
      case 1
      have "for_range 0 body s = Inr s" by simp
      with 1 show ?thesis by blast
    next
      case 2
      from 2(2) Suc.IH[of s0] obtain k s1 where
        k: "k < n" and ok: "for_range k body s0 = Inr s1" and bad: "body s1 = Inl e"
        by blast
      have "for_range (Suc k) body s = Inr s1" using 2(1) ok by simp
      moreover have "Suc k < Suc n" using k by simp
      ultimately show ?thesis using bad by blast
    qed
  next
    assume "\<exists>k s1. k < Suc n \<and> for_range k body s = Inr s1 \<and> body s1 = Inl e"
    then obtain k s1 where
      k: "k < Suc n" and ok: "for_range k body s = Inr s1" and bad: "body s1 = Inl e"
      by blast
    show "for_range (Suc n) body s = Inl e"
    proof (cases k)
      case 0
      with ok bad show ?thesis by simp
    next
      case (Suc k')
      with ok obtain s0 where s0: "body s = Inr s0" and ok': "for_range k' body s0 = Inr s1"
        by (auto simp: and_then_eq_Inr)
      from k Suc have "k' < n" by simp
      with ok' bad have "for_range n body s0 = Inl e" using Suc.IH[of s0] by blast
      with s0 show ?thesis by simp
    qed
  qed
qed

lemma epoch_eq_Inl:
  "epoch lib s = Inl e \<longleftrightarrow>
     call_iter lib (s\<lparr>running_loss := PyInt 0\<rparr>) = Inl e \<or>
     (\<exists>bs s1. call_iter lib (s\<lparr>running_loss := PyInt 0\<rparr>) = Inr (bs, s1) \<and>
       (for_batches lib bs s1 = Inl e \<or>
       (\<exists>s2. for_batches lib bs s1 = Inr s2 \<and>
         (call_len lib s2 = Inl e \<or>
         (\<exists>n s3. call_len lib s2 = Inr (n, s3) \<and>
            py_truediv lib (running_loss s3) n = Inl e)))))"
  by (auto simp: epoch_def and_then_eq_Inl)

lemma demo_failing_run:
  "for_range 1 (epoch (demo_lib 3)) demo_state =
     Inr \<lparr>lib_state = 2, running_loss = PyFloat 11,
          trace = [Ev_iter [[1, 2], [3, 4]],
                   Ev_view 1, Ev_zero_grad, Ev_model 1, Ev_criterion 1 2, Ev_backward 3,
                   Ev_step, Ev_item 3 3,
                   Ev_view 3, Ev_zero_grad, Ev_model 3, Ev_criterion 4 4, Ev_backward 8,
                   Ev_step, Ev_item 8 8,
                   Ev_len 2, Ev_print (11 / 2)]\<rparr>"
  "epoch (demo_lib 3)
     \<lparr>lib_state = 2, running_loss = PyFloat 11,
      trace = [Ev_iter [[1, 2], [3, 4]],
               Ev_view 1, Ev_zero_grad, Ev_model 1, Ev_criterion 1 2, Ev_backward 3,
               Ev_step, Ev_item 3 3,
               Ev_view 3, Ev_zero_grad, Ev_model 3, Ev_criterion 4 4, Ev_backward 8,
               Ev_step, Ev_item 8 8,
               Ev_len 2, Ev_print (11 / 2)]\<rparr> = Inl (Raised ''RuntimeError'')"
  by (simp_all add: demo_defs eval_nat_numeral)

text \<open>
  C6. No line of the notebook's code begins an exception handler, a check or an
  open-ended loop. Accordingly the loop raises exactly when one of the operations it
  invokes raises, and then with that very exception: the training loop fails with \<open>e\<close>
  iff some epoch, after the earlier ones completed, fails with \<open>e\<close>; an epoch fails with
  \<open>e\<close> iff starting the pass, one of its iterations, \<^verbatim>\<open>len(trainloader)\<close> or the final
  division fails with \<open>e\<close>; and an iteration fails with \<open>e\<close> iff one of its seven library
  calls, the earlier ones having returned, fails with \<open>e\<close>.
\<close>

theorem exceptions_propagate_uncaught:
  "list_all (\<lambda>l. \<not> starts_with_keyword l) (code_lines code_cells) \<and>
   (train lib s = Inl e \<longleftrightarrow>
      (\<exists>k s1. k < epochs \<and> for_range k (epoch lib) s = Inr s1 \<and> epoch lib s1 = Inl e)) \<and>
   (epoch lib s = Inl e \<longleftrightarrow>
      call_iter lib (s\<lparr>running_loss := PyInt 0\<rparr>) = Inl e \<or>
      (\<exists>bs s1. call_iter lib (s\<lparr>running_loss := PyInt 0\<rparr>) = Inr (bs, s1) \<and>
        (for_batches lib bs s1 = Inl e \<or>
        (\<exists>s2. for_batches lib bs s1 = Inr s2 \<and>
          (call_len lib s2 = Inl e \<or>
          (\<exists>n s3. call_len lib s2 = Inr (n, s3) \<and>
             py_truediv lib (running_loss s3) n = Inl e)))))) \<and>
   (for_batches lib batches s = Inl e \<longleftrightarrow>
      (\<exists>before b rest s1. batches = before @ b # rest \<and>
         for_batches lib before s = Inr s1 \<and> loop_body lib b s1 = Inl e)) \<and>
   (loop_body lib [images, labels] s = Inl e \<longleftrightarrow>
      call_view lib images s = Inl e \<or>
      (\<exists>flat s1. call_view lib images s = Inr (flat, s1) \<and>
        (call_zero_grad lib s1 = Inl e \<or>
        (\<exists>s2. call_zero_grad lib s1 = Inr s2 \<and>
          (call_model lib flat s2 = Inl e \<or>
          (\<exists>outp s3. call_model lib flat s2 = Inr (outp, s3) \<and>
            (call_criterion lib outp labels s3 = Inl e \<or>
            (\<exists>loss s4. call_criterion lib outp labels s3 = Inr (loss, s4) \<and>
              (call_backward lib loss s4 = Inl e \<or>
              (\<exists>s5. call_backward lib loss s4 = Inr s5 \<and>
                (call_step lib s5 = Inl e \<or>
                (\<exists>s6. call_step lib s5 = Inr s6 \<and>
                   call_item lib loss s6 = Inl e))))))))))))"
proof -
  have a: "list_all (\<lambda>l. \<not> starts_with_keyword l) (code_lines code_cells)"
    by (rule no_handler_statement)
  have b: "train lib s = Inl e \<longleftrightarrow>
      (\<exists>k s1. k < epochs \<and> for_range k (epoch lib) s = Inr s1 \<and> epoch lib s1 = Inl e)"
    unfolding train_def by (rule for_range_eq_Inl)
  note c = epoch_eq_Inl[of lib s e]
  note d = for_batches_eq_Inl[of lib batches s e]
  note f = loop_body_eq_Inl[of lib images labels s e]
  show ?thesis
    apply (rule conjI[OF a])
    apply (rule conjI[OF b])
    apply (rule conjI[OF c])
    apply (rule conjI[OF d])
    apply (rule f)
    done
qed

text \<open>
  On the small library whose fourth optimizer step raises, the loop ends with that
  exception, raised in the second epoch.
\<close>

theorem exceptions_propagate_uncaught_witness:
  "train (demo_lib 3) demo_state = Inl (Raised ''RuntimeError'')"
proof -
  have "\<exists>k s1. k < epochs \<and> for_range k (epoch (demo_lib 3)) demo_state = Inr s1 \<and>
          epoch (demo_lib 3) s1 = Inl (Raised ''RuntimeError'')"
  proof (intro exI conjI)
    show "1 < epochs" by (simp add: epochs_def)
  qed (rule demo_failing_run)+
  moreover have "train (demo_lib 3) demo_state = Inl (Raised ''RuntimeError'') \<longleftrightarrow>
      (\<exists>k s1. k < epochs \<and> for_range k (epoch (demo_lib 3)) demo_state = Inr s1 \<and>
          epoch (demo_lib 3) s1 = Inl (Raised ''RuntimeError''))"
    by (rule conjunct1[OF conjunct2[OF exceptions_propagate_uncaught]])
  ultimately show ?thesis by (rule iffD2[rotated])
qed

section \<open>Further facts of the document and of the loop\<close>

text \<open>
  The lines of the notebook's code that mention the loader: its construction, the five
  statements that take one element, the header of the inner loop and the call of
  \<^verbatim>\<open>len\<close>. Every line that takes an element unpacks it into two names.
\<close>

lemma trainloader_lines:
  "filter (contains ''trainloader'') (code_lines code_cells) =
     [''trainloader = torch.utils.data.DataLoader(trainset, batch_size=64, shuffle=True)'',
      ''images, labels = next(iter(trainloader))'',
      ''images, labels = next(iter(trainloader))'',
      ''images, labels = next(iter(trainloader))'',
      ''images, labels = next(iter(trainloader))'',
      ''    for images, labels in trainloader:'',
      ''        print(f\"Training loss: {running_loss/len(trainloader)}\")'',
      ''images, labels = next(iter(trainloader))'']"
  by code_simp

text \<open>In the inner loop an element that has not exactly two items raises.\<close>

lemma unpack_needs_pair:
  "length element \<noteq> 2 \<Longrightarrow> loop_body lib element s = Inl ValueError"
  by (cases element rule: list.exhaust[case_names Nil Cons])
     (auto simp: loop_body_def split: list.splits)

text \<open>
  In the outputs recorded for cells In[14] and In[15], the second and third rows of the
  gradient of the first layer's weights are printed as zeros, the same two rows of the
  weights are printed identically before and after \<^verbatim>\<open>optimizer.step()\<close>, and the
  first row is printed differently.
\<close>

lemma unchanged_rows_recorded:
  "printed_rows 15 2 cell_In14 =
     replicate 2 ''        [ 0.0000,  0.0000,  0.0000,  ...,  0.0000,  0.0000,  0.0000],''"
  "printed_rows 3 4 cell_In15 = printed_rows 3 4 cell_In14"
  "printed_rows 1 2 cell_In15 \<noteq> printed_rows 1 2 cell_In14"
  by (simp_all add: printed_rows_def printed_lines_def cell_In14_def cell_In15_def
      eval_nat_numeral)

end
